theory Spec2Isabelle
  imports Main "HOL-Library.Monad_Syntax" "HOL-Library.Sublist"
begin

chapter \<open>The program: server.js as functions\<close>


section \<open>JavaScript values as they reach server.js\<close>

text \<open>
  Everything \<open>server.js\<close> computes on comes out of \<open>JSON.parse\<close> (the upstream bodies) or
  out of the query-string parser (\<open>req.query\<close>), or is a literal of the program. Such a
  value is \<open>undefined\<close> (an absent property), \<open>null\<close>, a boolean, a number, a string, an
  array or a plain object. Numbers are modelled as integers: the only numbers the program
  itself makes are \<open>0\<close>, \<open>1000\<close> and array lengths, and of a number it only asks whether
  it is zero and what its decimal text is. An object is the list of its own properties;
  a property is looked up with \<open>map_of\<close>.
\<close>

datatype jsval =
    JUndefined
  | JNull
  | JBool bool
  | JNum int
  | JStr string
  | JArr "jsval list"
  | JObj "(string \<times> jsval) list"

text \<open>\<open>Boolean(v)\<close>, \<open>!!v\<close>, and the test of \<open>if (v)\<close>, \<open>v || d\<close>, \<open>v ? a : b\<close>.\<close>

fun truthy :: "jsval \<Rightarrow> bool" where
  "truthy JUndefined = False"
| "truthy JNull = False"
| "truthy (JBool b) = b"
| "truthy (JNum n) = (n \<noteq> 0)"
| "truthy (JStr s) = (s \<noteq> [])"
| "truthy (JArr xs) = True"
| "truthy (JObj kvs) = True"

text \<open>\<open>a || b\<close> on values.\<close>

definition orElse :: "jsval \<Rightarrow> jsval \<Rightarrow> jsval" where
  "orElse a b = (if truthy a then a else b)"

text \<open>\<open>parts.join(sep)\<close> on strings.\<close>

fun joinWith :: "string \<Rightarrow> string list \<Rightarrow> string" where
  "joinWith sep [] = []"
| "joinWith sep [x] = x"
| "joinWith sep (x # y # ys) = x @ sep @ joinWith sep (y # ys)"

text \<open>The decimal text of a number, as \<open>String\<close> prints an integer.\<close>

fun showNat :: "nat \<Rightarrow> string" where
  "showNat n =
     (if n < 10 then [''0123456789'' ! n]
      else showNat (n div 10) @ [''0123456789'' ! (n mod 10)])"

declare showNat.simps [simp del]

definition showInt :: "int \<Rightarrow> string" where
  "showInt i = (if i < 0 then ''-'' @ showNat (nat (- i)) else showNat (nat i))"

text \<open>
  \<open>String(v)\<close>, as a template literal \<open>`${v}`\<close> and \<open>Array.prototype.join\<close> apply it.
  Inside a join, \<open>undefined\<close> and \<open>null\<close> elements give the empty string.
\<close>

fun toStr :: "jsval \<Rightarrow> string" where
  "toStr JUndefined = ''undefined''"
| "toStr JNull = ''null''"
| "toStr (JBool b) = (if b then ''true'' else ''false'')"
| "toStr (JNum n) = showInt n"
| "toStr (JStr s) = s"
| "toStr (JArr xs) =
     joinWith '','' (map (\<lambda>x. if x = JUndefined \<or> x = JNull then [] else toStr x) xs)"
| "toStr (JObj kvs) = ''[object Object]''"

definition jsJoin :: "string \<Rightarrow> jsval list \<Rightarrow> string" where
  "jsJoin sep xs =
     joinWith sep (map (\<lambda>x. if x = JUndefined \<or> x = JNull then [] else toStr x) xs)"

text \<open>
  Reading a property, \<open>v.k\<close>. On \<open>undefined\<close> and \<open>null\<close> it throws a TypeError, which is
  the result \<open>None\<close>; on every other value it returns. The names the program reads are
  fixed identifiers (\<open>Id\<close>, \<open>Persoon\<close>, \<open>length\<close>, ...), none of them an array index or a
  name of a prototype, so an array and a string answer \<open>length\<close> only, and a number or
  boolean answers nothing. Of the length of a string the program only asks whether it is
  zero, so the unit it is counted in does not matter.
\<close>

fun getProp :: "jsval \<Rightarrow> string \<Rightarrow> jsval option" where
  "getProp JUndefined k = None"
| "getProp JNull k = None"
| "getProp (JObj kvs) k = Some (case map_of kvs k of Some v \<Rightarrow> v | None \<Rightarrow> JUndefined)"
| "getProp (JArr xs) k = Some (if k = ''length'' then JNum (int (length xs)) else JUndefined)"
| "getProp (JStr s) k = Some (if k = ''length'' then JNum (int (length s)) else JUndefined)"
| "getProp (JNum n) k = Some JUndefined"
| "getProp (JBool b) k = Some JUndefined"

text \<open>
  \<open>xs.forEach(f)\<close> with a callback that updates the variables it closes over: the state
  is threaded through, and a throw in the callback ends the loop.
\<close>

fun forEachM :: "('a \<Rightarrow> 's \<Rightarrow> 's option) \<Rightarrow> 'a list \<Rightarrow> 's \<Rightarrow> 's option" where
  "forEachM f [] s = Some s"
| "forEachM f (x # xs) s = (case f x s of None \<Rightarrow> None | Some s' \<Rightarrow> forEachM f xs s')"

text \<open>\<open>s.replace(/c/g, r)\<close> for a one-character pattern.\<close>

definition replaceAll :: "char \<Rightarrow> string \<Rightarrow> string \<Rightarrow> string" where
  "replaceAll c r s = concat (map (\<lambda>x. if x = c then r else [x]) s)"


section \<open>The record flattener: processAttendanceData\<close>

text \<open>
  The built-in \<open>Date\<close> is not code of the repository: it is a parameter. \<open>newDate v\<close> is
  the time value of \<open>new Date(v)\<close> in milliseconds, \<open>None\<close> for NaN (an Invalid Date);
  the two formatters are \<open>toLocaleDateString('nl-NL', {year, month, day})\<close> and
  \<open>toLocaleTimeString('nl-NL', {hour, minute, hour12: false})\<close> of a valid time value.
\<close>

record date_api =
  newDate :: "jsval \<Rightarrow> int option"
  toLocaleDateString :: "int \<Rightarrow> string"
  toLocaleTimeString :: "int \<Rightarrow> string"

text \<open>A \<open>Date\<close> object; \<open>getTime\<close> is \<open>None\<close> when the date is invalid.\<close>

datatype date_obj = DateObj (getTime: "int option")

record attendance_record =
  activityId :: jsval
  activityTitle :: jsval
  activityDate :: string
  activityTime :: string
  activityDateTime :: jsval
  personId :: jsval
  personName :: string
  personInitials :: jsval
  personFirstName :: jsval
  personLastName :: string
  fraction :: jsval
  fractionId :: jsval
  role :: jsval
  actorId :: jsval
  hasValidDate :: bool

text \<open>The three variables the outer callback updates.\<close>

record flatten_state =
  attendanceData :: "attendance_record list"
  skippedActivities :: nat
  activitiesWithoutActors :: nat

text \<open>
  Lines 298-332: \<open>startTime\<close> (\<open>None\<close> is \<open>null\<close>), \<open>activityDate\<close>, \<open>activityTime\<close>.
  Nothing in the \<open>try\<close> block throws (the activity is an object by then, and the
  formatters are called on a valid date with a constant locale), so there is no branch
  for the \<open>catch\<close>.
\<close>

definition parseStart :: "date_api \<Rightarrow> jsval \<Rightarrow> date_obj option \<times> string \<times> string" where
  "parseStart api dateStr =
     (if truthy dateStr then
        (let startTime = DateObj (newDate api dateStr) in
           (case getTime startTime of
              Some t \<Rightarrow>
                (Some startTime,
                 replaceAll (CHR ''-'') ''-'' (toLocaleDateString api t),
                 toLocaleTimeString api t)
            | None \<Rightarrow> (Some startTime, ''Unknown'', ''Unknown'')))
      else (None, ''Unknown'', ''Unknown''))"

text \<open>Lines 334-367: the inner callback, for one actor of one activity.\<close>

definition processActor ::
  "jsval \<Rightarrow> string \<Rightarrow> string \<Rightarrow> bool \<Rightarrow> jsval \<Rightarrow> flatten_state \<Rightarrow> flatten_state option" where
  "processActor activity actDate actTime validDate actor st = do {
     persoon \<leftarrow> getProp actor ''Persoon'';
     if truthy persoon then do {
       voornamen \<leftarrow> getProp persoon ''Voornamen'';
       tussenvoegsel \<leftarrow> getProp persoon ''Tussenvoegsel'';
       achternaam \<leftarrow> getProp persoon ''Achternaam'';
       let fullName = jsJoin '' '' (filter truthy [voornamen, tussenvoegsel, achternaam]);
       fractie \<leftarrow> getProp actor ''Fractie'';
       fractionName \<leftarrow>
         (if truthy fractie then getProp fractie ''NaamNL'' else Some (JStr ''Unknown''));
       actId \<leftarrow> getProp activity ''Id'';
       onderwerp \<leftarrow> getProp activity ''Onderwerp'';
       aanvangstijd \<leftarrow> getProp activity ''Aanvangstijd'';
       datum \<leftarrow> getProp activity ''Datum'';
       persId \<leftarrow> getProp persoon ''Id'';
       initialen \<leftarrow> getProp persoon ''Initialen'';
       fracId \<leftarrow> (if truthy fractie then getProp fractie ''Id'' else Some JNull);
       functie \<leftarrow> getProp actor ''Functie'';
       aId \<leftarrow> getProp actor ''Id'';
       Some (st\<lparr>attendanceData := attendanceData st @
         [\<lparr>activityId = actId,
           activityTitle = orElse onderwerp (JStr ''Unknown Activity''),
           activityDate = actDate,
           activityTime = actTime,
           activityDateTime = orElse aanvangstijd datum,
           personId = persId,
           personName = fullName,
           personInitials = orElse initialen (JStr ''''),
           personFirstName = orElse voornamen (JStr ''''),
           personLastName = jsJoin '' '' (filter truthy [tussenvoegsel, achternaam]),
           fraction = fractionName,
           fractionId = fracId,
           role = orElse functie (JStr ''Participant''),
           actorId = aId,
           hasValidDate = validDate\<rparr>]\<rparr>)
     } else Some st
   }"

text \<open>
  Lines 288-368: the outer callback, for one activity. The index is used for logging
  only. \<open>actors.forEach\<close> exists on an array only: on any other value that passed the
  test of line 290 the call throws.
\<close>

definition processActivity :: "date_api \<Rightarrow> jsval \<Rightarrow> flatten_state \<Rightarrow> flatten_state option" where
  "processActivity api activity st = do {
     actors \<leftarrow> getProp activity ''ActiviteitActor'';
     noActors \<leftarrow>
       (if \<not> truthy actors then Some True
        else do { len \<leftarrow> getProp actors ''length''; Some (len = JNum 0) });
     if noActors then Some (st\<lparr>activitiesWithoutActors := activitiesWithoutActors st + 1\<rparr>)
     else do {
       aanvangstijd \<leftarrow> getProp activity ''Aanvangstijd'';
       datum \<leftarrow> getProp activity ''Datum'';
       let dateStr = orElse aanvangstijd datum;
       let (startTime, actDate, actTime) = parseStart api dateStr;
       let validDate = (startTime \<noteq> None);
       (case actors of
          JArr as \<Rightarrow> forEachM (processActor activity actDate actTime validDate) as st
        | _ \<Rightarrow> None)
     }
   }"

definition initState :: flatten_state where
  "initState = \<lparr>attendanceData = [], skippedActivities = 0, activitiesWithoutActors = 0\<rparr>"

text \<open>
  Lines 281-376: the whole function. \<open>activities.forEach\<close> exists on an array only; the
  function returns \<open>attendanceData\<close>, and the counters are only logged.
\<close>

definition processAttendanceData :: "date_api \<Rightarrow> jsval \<Rightarrow> attendance_record list option" where
  "processAttendanceData api activities =
     (case activities of
        JArr acts \<Rightarrow> map_option attendanceData (forEachM (processActivity api) acts initState)
      | _ \<Rightarrow> None)"


section \<open>Reading the flattener's results\<close>

text \<open>
  The statements below speak of the value of a property of a value that is not
  \<open>undefined\<close> or \<open>null\<close>; \<open>field v k\<close> is that value (\<open>undefined\<close> when \<open>k\<close> is absent).
\<close>

definition nullish :: "jsval \<Rightarrow> bool" where
  "nullish v = (v = JUndefined \<or> v = JNull)"

definition field :: "jsval \<Rightarrow> string \<Rightarrow> jsval" where
  "field v k = (case getProp v k of Some x \<Rightarrow> x | None \<Rightarrow> JUndefined)"

text \<open>
  The object literal of lines 346-365, when every property read of it returns: the
  record pushed for an actor whose \<open>Persoon\<close> is truthy.
\<close>

definition recordFor :: "jsval \<Rightarrow> string \<Rightarrow> string \<Rightarrow> bool \<Rightarrow> jsval \<Rightarrow> attendance_record" where
  "recordFor activity actDate actTime validDate actor =
     \<lparr>activityId = field activity ''Id'',
      activityTitle = orElse (field activity ''Onderwerp'') (JStr ''Unknown Activity''),
      activityDate = actDate,
      activityTime = actTime,
      activityDateTime = orElse (field activity ''Aanvangstijd'') (field activity ''Datum''),
      personId = field (field actor ''Persoon'') ''Id'',
      personName = jsJoin '' '' (filter truthy
         [field (field actor ''Persoon'') ''Voornamen'',
          field (field actor ''Persoon'') ''Tussenvoegsel'',
          field (field actor ''Persoon'') ''Achternaam'']),
      personInitials = orElse (field (field actor ''Persoon'') ''Initialen'') (JStr []),
      personFirstName = orElse (field (field actor ''Persoon'') ''Voornamen'') (JStr []),
      personLastName = jsJoin '' '' (filter truthy
         [field (field actor ''Persoon'') ''Tussenvoegsel'',
          field (field actor ''Persoon'') ''Achternaam'']),
      fraction = (if truthy (field actor ''Fractie'')
                  then field (field actor ''Fractie'') ''NaamNL'' else JStr ''Unknown''),
      fractionId = (if truthy (field actor ''Fractie'')
                    then field (field actor ''Fractie'') ''Id'' else JNull),
      role = orElse (field actor ''Functie'') (JStr ''Participant''),
      actorId = field actor ''Id'',
      hasValidDate = validDate\<rparr>"

text \<open>An actor counts when its \<open>Persoon\<close> passes the test of line 335.\<close>

definition hasPerson :: "jsval \<Rightarrow> bool" where
  "hasPerson actor = truthy (field actor ''Persoon'')"

text \<open>
  One behaviour of the \<open>Date\<close> built-in, to instantiate the theorems at: it parses one
  timestamp, on a server in the Amsterdam time zone, and no other text.
\<close>

definition sampleDateApi :: date_api where
  "sampleDateApi =
     \<lparr>newDate = (\<lambda>v. if v = JStr ''2024-03-15T14:30:00Z'' then Some 1710513000000 else None),
      toLocaleDateString = (\<lambda>t. ''15-03-2024''),
      toLocaleTimeString = (\<lambda>t. ''15:30'')\<rparr>"


section \<open>Name parts, in the words of the specification\<close>





section \<open>The shape of an activity record\<close>


definition activityActors :: "jsval \<Rightarrow> jsval list" where
  "activityActors activity =
     (case field activity ''ActiviteitActor'' of JArr actors \<Rightarrow> actors | _ \<Rightarrow> [])"


text \<open>The rows of one activity: one for each of its actors that has a person.\<close>

definition activityRows :: "date_api \<Rightarrow> jsval \<Rightarrow> attendance_record list" where
  "activityRows api activity =
     (case parseStart api (orElse (field activity ''Aanvangstijd'') (field activity ''Datum'')) of
        (startTime, actDate, actTime) \<Rightarrow>
          map (recordFor activity actDate actTime (startTime \<noteq> None))
            (filter hasPerson (activityActors activity)))"


section \<open>The query builder: buildQuery\<close>

definition BASE_API_URL :: string where
  "BASE_API_URL = ''https://gegevensmagazijn.tweedekamer.nl/OData/v4/2.0''"

text \<open>
  \<open>options\<close> is the list of the own properties of the object, in the order \<open>Object.keys\<close>
  enumerates them; \<open>options[key]\<close> is \<open>lookupProp options key\<close>.
\<close>

definition lookupProp :: "(string \<times> jsval) list \<Rightarrow> string \<Rightarrow> jsval" where
  "lookupProp kvs k = (case map_of kvs k of Some v \<Rightarrow> v | None \<Rightarrow> JUndefined)"

text \<open>Lines 55-59: the callback of \<open>Object.keys(options).forEach\<close>.\<close>

definition pushOption :: "(string \<times> jsval) list \<Rightarrow> string \<Rightarrow> string list \<Rightarrow> string list" where
  "pushOption options key params =
     (if lookupProp options key \<noteq> JUndefined \<and> lookupProp options key \<noteq> JNull
      then params @ [''$'' @ key @ ''='' @ toStr (lookupProp options key)]
      else params)"

text \<open>Lines 42-62: the array \<open>params\<close> after the last push.\<close>

definition queryParams :: "string list \<Rightarrow> string list \<Rightarrow> (string \<times> jsval) list \<Rightarrow> string list" where
  "queryParams filters expands options =
     (let params = [];
          params = (if length filters > 0
                    then params @ [''$filter='' @ joinWith '' and '' filters] else params);
          params = (if length expands > 0
                    then params @ [''$expand='' @ joinWith '','' expands] else params);
          params = fold (pushOption options) (map fst options) params
      in params @ [''$format=json''])"

definition buildQuery ::
  "string \<Rightarrow> string list \<Rightarrow> string list \<Rightarrow> (string \<times> jsval) list \<Rightarrow> string" where
  "buildQuery endpoint filters expands options =
     (let query = BASE_API_URL @ ''/'' @ endpoint;
          params = queryParams filters expands options
      in if length params > 0 then query @ ''?'' @ joinWith ''&'' params else query)"

text \<open>
  The parameters as the specification words them: one \<open>$filter\<close> clause when there are
  filters, one \<open>$expand\<close> clause when there are expansions, one parameter for each option
  whose value is neither \<open>undefined\<close> nor \<open>null\<close>, and \<open>$format=json\<close> last.
\<close>

definition optionParams :: "(string \<times> jsval) list \<Rightarrow> string list" where
  "optionParams options =
     map (\<lambda>(k, v). ''$'' @ k @ ''='' @ toStr v)
       (filter (\<lambda>(k, v). v \<noteq> JUndefined \<and> v \<noteq> JNull) options)"

definition specParams :: "string list \<Rightarrow> string list \<Rightarrow> (string \<times> jsval) list \<Rightarrow> string list" where
  "specParams filters expands options =
     (if filters = [] then [] else [''$filter='' @ joinWith '' and '' filters]) @
     (if expands = [] then [] else [''$expand='' @ joinWith '','' expands]) @
     optionParams options @ [''$format=json'']"


section \<open>The queries the routes build\<close>










section \<open>The attendance route\<close>










chapter \<open>What the program does\<close>


section \<open>Property reads and the two loops\<close>

lemma getProp_nullish: "nullish v \<Longrightarrow> getProp v k = None"
  by (cases v) (simp_all add: nullish_def)

lemma getProp_field: "\<not> nullish v \<Longrightarrow> getProp v k = Some (field v k)"
  by (cases v) (simp_all add: nullish_def field_def)

lemma getProp_Some_field: "getProp v k = Some x \<Longrightarrow> \<not> nullish v \<and> field v k = x"
  by (cases v) (simp_all add: nullish_def field_def)

lemma truthy_not_nullish: "truthy v \<Longrightarrow> \<not> nullish v"
  by (cases v) (simp_all add: nullish_def)

lemma processActor_nullish: "nullish actor \<Longrightarrow> processActor activity d t v actor st = None"
  by (simp add: processActor_def getProp_nullish)

lemma processActor_skip:
  "\<not> nullish actor \<Longrightarrow> \<not> hasPerson actor \<Longrightarrow> processActor activity d t v actor st = Some st"
  by (simp add: processActor_def getProp_field hasPerson_def)

lemma processActor_emit:
  "\<not> nullish actor \<Longrightarrow> hasPerson actor \<Longrightarrow> \<not> nullish activity \<Longrightarrow>
   processActor activity d t v actor st =
     Some (st\<lparr>attendanceData := attendanceData st @ [recordFor activity d t v actor]\<rparr>)"
  by (simp add: processActor_def getProp_field truthy_not_nullish recordFor_def hasPerson_def)

lemma processActor_activity_nullish:
  "\<not> nullish actor \<Longrightarrow> hasPerson actor \<Longrightarrow> nullish activity \<Longrightarrow>
   processActor activity d t v actor st = None"
  by (simp add: processActor_def getProp_field truthy_not_nullish getProp_nullish
      hasPerson_def)

text \<open>An actor with a person, of an activity that is an object, pushes its record.\<close>

lemma person_emits:
  assumes "getProp actor ''Persoon'' = Some p \<and> truthy p \<and> \<not> nullish activity"
  shows "field actor ''Persoon'' = p \<and>
         processActor activity d t v actor st =
           Some (st\<lparr>attendanceData := attendanceData st @ [recordFor activity d t v actor]\<rparr>)"
proof -
  from assms have "\<not> nullish actor" and p: "field actor ''Persoon'' = p"
    using getProp_Some_field by blast+
  with assms show ?thesis
    by (simp add: processActor_emit hasPerson_def)
qed

lemma forEach_actors_Some:
  "forEachM (processActor activity d t v) actors st = Some st' \<Longrightarrow>
   st' = st\<lparr>attendanceData := attendanceData st @
           map (recordFor activity d t v) (filter hasPerson actors)\<rparr>"
proof (induction actors arbitrary: st)
  case Nil
  then show ?case by simp
next
  case (Cons a actors)
  from Cons.prems obtain s1 where
    s1: "processActor activity d t v a st = Some s1" and
    rest: "forEachM (processActor activity d t v) actors s1 = Some st'"
    by (auto split: option.splits)
  from s1 have a: "\<not> nullish a"
    using processActor_nullish by fastforce
  show ?case
  proof (cases "hasPerson a")
    case False
    with a s1 Cons.IH [OF rest] show ?thesis by (auto simp: processActor_skip)
  next
    case True
    with a s1 have "\<not> nullish activity"
      using processActor_activity_nullish by fastforce
    with a True s1 Cons.IH [OF rest] show ?thesis by (auto simp: processActor_emit)
  qed
qed

lemma forEach_actors_total:
  "list_all (\<lambda>a. \<not> nullish a) actors \<Longrightarrow> \<not> nullish activity \<Longrightarrow>
   forEachM (processActor activity d t v) actors st =
     Some (st\<lparr>attendanceData := attendanceData st @
             map (recordFor activity d t v) (filter hasPerson actors)\<rparr>)"
proof (induction actors arbitrary: st)
  case Nil
  then show ?case by simp
next
  case (Cons a actors)
  then show ?case
    by (cases "hasPerson a") (simp_all add: processActor_skip processActor_emit)
qed

text \<open>The outer callback: the branch of line 290, and the branch that runs the inner loop.\<close>

lemma processActivity_nullish: "nullish activity \<Longrightarrow> processActivity api activity st = None"
  by (simp add: processActivity_def getProp_nullish)

lemma processActivity_skip:
  assumes "\<not> nullish activity"
    and "\<not> truthy (field activity ''ActiviteitActor'') \<or>
         field (field activity ''ActiviteitActor'') ''length'' = JNum 0"
  shows "processActivity api activity st =
           Some (st\<lparr>activitiesWithoutActors := activitiesWithoutActors st + 1\<rparr>)"
  using assms
  by (cases "truthy (field activity ''ActiviteitActor'')")
    (simp_all add: processActivity_def getProp_field truthy_not_nullish)

lemma processActivity_loop:
  assumes "\<not> nullish activity" and "field activity ''ActiviteitActor'' = JArr actors"
    and "actors \<noteq> []"
    and "parseStart api (orElse (field activity ''Aanvangstijd'') (field activity ''Datum'')) =
           (startTime, actDate, actTime)"
  shows "processActivity api activity st =
           forEachM (processActor activity actDate actTime (startTime \<noteq> None)) actors st"
  using assms
  by (simp add: processActivity_def getProp_field nullish_def Let_def)

lemma processActivity_not_array:
  assumes "\<not> nullish activity" and "truthy (field activity ''ActiviteitActor'')"
    and "field (field activity ''ActiviteitActor'') ''length'' \<noteq> JNum 0"
    and "\<forall>xs. field activity ''ActiviteitActor'' \<noteq> JArr xs"
  shows "processActivity api activity st = None"
  using assms
  by (simp add: processActivity_def getProp_field truthy_not_nullish Let_def
      split: prod.splits jsval.splits)

lemma activityRows_Nil: "activityActors activity = [] \<Longrightarrow> activityRows api activity = []"
  by (simp add: activityRows_def split: prod.splits)

text \<open>
  Whenever the outer callback returns, it has pushed the rows of the activity, and it
  has counted the activity exactly when it has no actors.
\<close>

lemma processActivity_Some:
  assumes run: "processActivity api activity st = Some st'"
  shows "attendanceData st' = attendanceData st @ activityRows api activity \<and>
         activitiesWithoutActors st' =
           activitiesWithoutActors st + (if activityActors activity = [] then 1 else 0)"
proof -
  let ?A = "field activity ''ActiviteitActor''"
  have act: "\<not> nullish activity"
    using run processActivity_nullish by fastforce
  show ?thesis
  proof (cases "\<not> truthy ?A \<or> field ?A ''length'' = JNum 0")
    case True
    then have "activityActors activity = []"
      by (cases ?A) (auto simp: activityActors_def field_def)
    with run act True show ?thesis
      by (auto simp: processActivity_skip activityRows_Nil)
  next
    case False
    with run act have "\<not> (\<forall>xs. ?A \<noteq> JArr xs)"
      using processActivity_not_array [of activity api st] by fastforce
    then obtain actors where arr: "?A = JArr actors" by blast
    with False have ne: "actors \<noteq> []" by (auto simp: field_def)
    obtain sT d t where ps:
      "parseStart api (orElse (field activity ''Aanvangstijd'') (field activity ''Datum'')) =
         (sT, d, t)"
      using prod_cases3 by blast
    from run have "forEachM (processActor activity d t (sT \<noteq> None)) actors st = Some st'"
      by (simp add: processActivity_loop [OF act arr ne ps])
    from forEach_actors_Some [OF this] arr ne ps show ?thesis
      by (simp add: activityRows_def activityActors_def)
  qed
qed


text \<open>The outer callback returns when no actor of the activity is \<open>undefined\<close> or \<open>null\<close>.\<close>

lemma processActivity_total:
  assumes act: "\<not> nullish activity"
    and arr: "nullish (field activity ''ActiviteitActor'') \<or>
              field activity ''ActiviteitActor'' = JArr actors \<and>
              list_all (\<lambda>a. \<not> nullish a) actors"
  shows "\<exists>st'. processActivity api activity st = Some st'"
proof (cases "nullish (field activity ''ActiviteitActor'') \<or> actors = []")
  case True
  with arr have "\<not> truthy (field activity ''ActiviteitActor'') \<or>
      field (field activity ''ActiviteitActor'') ''length'' = JNum 0"
    by (auto simp: nullish_def field_def)
  with act show ?thesis by (simp add: processActivity_skip)
next
  case False
  with arr have a: "field activity ''ActiviteitActor'' = JArr actors"
    and wf: "list_all (\<lambda>a. \<not> nullish a) actors" and ne: "actors \<noteq> []"
    by simp_all
  obtain sT d t where ps:
    "parseStart api (orElse (field activity ''Aanvangstijd'') (field activity ''Datum'')) =
       (sT, d, t)"
    using prod_cases3 by blast
  show ?thesis
    by (simp add: processActivity_loop [OF act a ne ps] forEach_actors_total [OF wf act])
qed


section \<open>Activities without actors\<close>

text \<open>
  Claim C4. An activity whose actor collection is absent (\<open>undefined\<close> or \<open>null\<close>) or the
  empty array leaves \<open>attendanceData\<close> as it was, so it contributes no record, and adds
  exactly one to \<open>activitiesWithoutActors\<close>, the count of skipped activities. An activity
  with at least one actor leaves that count alone whenever the callback returns, and it
  does return when no actor is \<open>undefined\<close> or \<open>null\<close>.
\<close>

theorem activity_without_actors_is_counted:
  "(getProp activity ''ActiviteitActor'' = Some actors \<and> (nullish actors \<or> actors = JArr []) \<longrightarrow>
      processActivity api activity st =
        Some (st\<lparr>activitiesWithoutActors := activitiesWithoutActors st + 1\<rparr>))
   \<and> (getProp activity ''ActiviteitActor'' = Some (JArr (a # as)) \<and>
        processActivity api activity st = Some st' \<longrightarrow>
      activitiesWithoutActors st' = activitiesWithoutActors st)
   \<and> (getProp activity ''ActiviteitActor'' = Some (JArr (a # as)) \<and>
        list_all (\<lambda>x. \<not> nullish x) (a # as) \<longrightarrow>
      (\<exists>st''. processActivity api activity st = Some st'' \<and>
         activitiesWithoutActors st'' = activitiesWithoutActors st))"
  (is "(?H1 \<longrightarrow> ?C1) \<and> (?H2 \<longrightarrow> ?C2) \<and> (?H3 \<longrightarrow> ?C3)")
proof (intro conjI impI)
  assume h: ?H1
  then have "\<not> nullish activity" and "field activity ''ActiviteitActor'' = actors"
    using getProp_Some_field by blast+
  moreover from h have "\<not> truthy actors \<or> field actors ''length'' = JNum 0"
    by (auto simp: nullish_def field_def)
  ultimately show ?C1
    by (simp add: processActivity_skip)
next
  assume h: ?H2
  then have "activityActors activity = a # as"
    using getProp_Some_field [of activity] by (auto simp: activityActors_def)
  with h processActivity_Some [of api activity st st'] show ?C2
    by simp
next
  assume h: ?H3
  then have act: "\<not> nullish activity"
    and arr: "field activity ''ActiviteitActor'' = JArr (a # as)"
    using getProp_Some_field by blast+
  with h processActivity_total [of activity "a # as" api st]
  obtain st'' where run: "processActivity api activity st = Some st''"
    by auto
  from arr processActivity_Some [OF run] run show ?C3
    by (simp add: activityActors_def)
qed

theorem activity_without_actors_is_counted_witness:
  "processActivity sampleDateApi (JObj [(''Id'', JStr ''a1'')]) initState =
     Some (initState\<lparr>activitiesWithoutActors := 1\<rparr>)
   \<and> processActivity sampleDateApi (JObj [(''ActiviteitActor'', JArr [])]) initState =
     Some (initState\<lparr>activitiesWithoutActors := 1\<rparr>)
   \<and> (\<exists>st''. processActivity sampleDateApi (JObj [(''ActiviteitActor'', JArr [JObj []])])
          initState = Some st'' \<and> activitiesWithoutActors st'' = 0)"
  using activity_without_actors_is_counted
      [of "JObj [(''Id'', JStr ''a1'')]" JUndefined sampleDateApi initState]
    activity_without_actors_is_counted
      [of "JObj [(''ActiviteitActor'', JArr [])]" "JArr []" sampleDateApi initState]
    activity_without_actors_is_counted
      [of "JObj [(''ActiviteitActor'', JArr [JObj []])]" _ sampleDateApi initState "JObj []" "[]"]
  by (simp add: nullish_def initState_def)


section \<open>Actors without a person\<close>

text \<open>
  Claim C5. An actor whose \<open>Persoon\<close> is absent (or any other falsy value) leaves the state
  as it was: no record is pushed and nothing is thrown, whatever its other properties
  are. Consequently, whenever the loop over the actors of an activity returns, the
  records it has pushed are, in order, the records of exactly the actors with a person.
\<close>

theorem actor_without_person_is_skipped:
  "(getProp actor ''Persoon'' = Some p \<and> \<not> truthy p \<longrightarrow>
      processActor activity d t v actor st = Some st)
   \<and> (forEachM (processActor activity d t v) actors st = Some st' \<longrightarrow>
        attendanceData st' =
          attendanceData st @ map (recordFor activity d t v) (filter hasPerson actors))"
  (is "(?H1 \<longrightarrow> ?C1) \<and> (?H2 \<longrightarrow> ?C2)")
proof (intro conjI impI)
  assume h: ?H1
  then have "\<not> nullish actor" and "field actor ''Persoon'' = p"
    using getProp_Some_field by blast+
  with h show ?C1
    by (simp add: processActor_skip hasPerson_def)
next
  assume ?H2
  from forEach_actors_Some [OF this] show ?C2
    by simp
qed

theorem actor_without_person_is_skipped_witness:
  "processActor (JObj []) [] [] False
      (JObj [(''Id'', JStr ''x1''), (''Functie'', JStr ''Voorzitter'')]) initState =
     Some initState
   \<and> (\<exists>st'. forEachM (processActor (JObj []) [] [] False)
          [JObj [(''Id'', JStr ''x1''), (''Persoon'', JNull)],
           JObj [(''Id'', JStr ''x2''), (''Persoon'', JObj [])]] initState = Some st'
        \<and> map actorId (attendanceData st') = [JStr ''x2''])"
proof -
  let ?as = "[JObj [(''Id'', JStr ''x1''), (''Persoon'', JNull)],
              JObj [(''Id'', JStr ''x2''), (''Persoon'', JObj [])]]"
  have "list_all (\<lambda>a. \<not> nullish a) ?as" and "\<not> nullish (JObj [])"
    by (simp_all add: nullish_def)
  from forEach_actors_total [OF this, of "[]" "[]" False initState]
  obtain st' where
    run: "forEachM (processActor (JObj []) [] [] False) ?as initState = Some st'"
    by blast
  with actor_without_person_is_skipped [of _ _ "JObj []" "[]" "[]" False initState ?as st']
  have "map actorId (attendanceData st') = [JStr ''x2'']"
    by (simp add: initState_def hasPerson_def field_def recordFor_def)
  with run actor_without_person_is_skipped
    [of "JObj [(''Id'', JStr ''x1''), (''Functie'', JStr ''Voorzitter'')]" JUndefined
        "JObj []" "[]" "[]" False initState]
  show ?thesis by simp
qed


section \<open>The fields of an emitted record\<close>




text \<open>
  Claim C7. For an actor with a person, the record pushed has: \<open>role\<close> the actor's
  \<open>Functie\<close> when that is present, which the code tests as truthy (a non-empty label),
  and \<open>"Participant"\<close> otherwise; \<open>fraction\<close> the \<open>NaamNL\<close> of the actor's \<open>Fractie\<close> when
  the \<open>Fractie\<close> is present, and \<open>"Unknown"\<close> otherwise; \<open>fractionId\<close> the \<open>Id\<close> of the
  \<open>Fractie\<close> when present, and \<open>null\<close> otherwise.
\<close>

theorem role_and_fraction_defaults:
  "getProp actor ''Persoon'' = Some p \<and> truthy p \<and> \<not> nullish activity \<longrightarrow>
   (\<exists>r. processActor activity d t v actor st =
           Some (st\<lparr>attendanceData := attendanceData st @ [r]\<rparr>) \<and>
        role r = (if truthy (field actor ''Functie'') then field actor ''Functie''
                  else JStr ''Participant'') \<and>
        fraction r = (if truthy (field actor ''Fractie'')
                      then field (field actor ''Fractie'') ''NaamNL'' else JStr ''Unknown'') \<and>
        fractionId r = (if truthy (field actor ''Fractie'')
                        then field (field actor ''Fractie'') ''Id'' else JNull))"
  (is "?H \<longrightarrow> (\<exists>r. ?C r)")
proof
  assume ?H
  from person_emits [OF this, of d t v st]
  have p: "field actor ''Persoon'' = p"
    and run: "processActor activity d t v actor st =
      Some (st\<lparr>attendanceData := attendanceData st @ [recordFor activity d t v actor]\<rparr>)"
    by simp_all
  have "?C (recordFor activity d t v actor)"
    by (intro conjI, rule run) (simp_all add: recordFor_def orElse_def p)
  then show "\<exists>r. ?C r"
    by (rule exI [of _ "recordFor activity d t v actor"])
qed

theorem role_and_fraction_defaults_witness:
  "(\<exists>r. processActor (JObj []) [] [] False (JObj [(''Persoon'', JObj [])]) initState =
          Some (initState\<lparr>attendanceData := [r]\<rparr>) \<and>
        role r = JStr ''Participant'' \<and> fraction r = JStr ''Unknown'' \<and> fractionId r = JNull)
   \<and> (\<exists>r. processActor (JObj []) [] [] False
          (JObj [(''Functie'', JStr ''Voorzitter''),
                 (''Fractie'', JObj [(''Id'', JStr ''f1''), (''NaamNL'', JStr ''VVD'')]),
                 (''Persoon'', JObj [])]) initState =
          Some (initState\<lparr>attendanceData := [r]\<rparr>) \<and>
        role r = JStr ''Voorzitter'' \<and> fraction r = JStr ''VVD'' \<and> fractionId r = JStr ''f1'')"
  using role_and_fraction_defaults
      [of "JObj [(''Persoon'', JObj [])]" "JObj []" "JObj []" "[]" "[]" False initState]
    role_and_fraction_defaults
      [of "JObj [(''Functie'', JStr ''Voorzitter''),
                 (''Fractie'', JObj [(''Id'', JStr ''f1''), (''NaamNL'', JStr ''VVD'')]),
                 (''Persoon'', JObj [])]" "JObj []" "JObj []" "[]" "[]" False initState]
  by (simp add: nullish_def field_def initState_def)

text \<open>
  Claim C10. The substitutions the code applies with \<open>||\<close> act on every falsy value, the
  empty string among them, not only on an absent one: \<open>activityTitle\<close> is
  \<open>"Unknown Activity"\<close> unless \<open>Onderwerp\<close> is truthy, \<open>personInitials\<close> and
  \<open>personFirstName\<close> are the empty string unless \<open>Initialen\<close> and \<open>Voornamen\<close> are truthy,
  and \<open>role\<close> is \<open>"Participant"\<close> unless \<open>Functie\<close> is truthy; a truthy value is kept as it
  is. The falsy values are \<open>undefined\<close>, \<open>null\<close>, \<open>false\<close>, \<open>0\<close> and the empty string.
\<close>

theorem falsy_values_get_defaults:
  "(\<not> truthy x \<longleftrightarrow> x = JUndefined \<or> x = JNull \<or> x = JBool False \<or> x = JNum 0 \<or> x = JStr [])
   \<and> (getProp actor ''Persoon'' = Some p \<and> truthy p \<and> \<not> nullish activity \<longrightarrow>
       (\<exists>r. processActor activity d t v actor st =
               Some (st\<lparr>attendanceData := attendanceData st @ [r]\<rparr>) \<and>
            activityTitle r = (if truthy (field activity ''Onderwerp'')
                               then field activity ''Onderwerp'' else JStr ''Unknown Activity'') \<and>
            personInitials r = (if truthy (field p ''Initialen'')
                                then field p ''Initialen'' else JStr []) \<and>
            personFirstName r = (if truthy (field p ''Voornamen'')
                                 then field p ''Voornamen'' else JStr []) \<and>
            role r = (if truthy (field actor ''Functie'')
                      then field actor ''Functie'' else JStr ''Participant'')))"
  (is "?F \<and> (?H \<longrightarrow> (\<exists>r. ?C r))")
proof (intro conjI impI)
  show ?F by (cases x) simp_all
next
  assume ?H
  from person_emits [OF this, of d t v st]
  have p: "field actor ''Persoon'' = p"
    and run: "processActor activity d t v actor st =
      Some (st\<lparr>attendanceData := attendanceData st @ [recordFor activity d t v actor]\<rparr>)"
    by simp_all
  have "?C (recordFor activity d t v actor)"
    by (intro conjI, rule run) (simp_all add: recordFor_def orElse_def p)
  then show "\<exists>r. ?C r"
    by (rule exI [of _ "recordFor activity d t v actor"])
qed

theorem falsy_values_get_defaults_witness:
  "(\<exists>r. processActor (JObj [(''Onderwerp'', JStr [])]) [] [] False
          (JObj [(''Functie'', JStr []),
                 (''Persoon'', JObj [(''Initialen'', JStr []), (''Voornamen'', JStr [])])])
          initState = Some (initState\<lparr>attendanceData := [r]\<rparr>) \<and>
        activityTitle r = JStr ''Unknown Activity'' \<and> personInitials r = JStr [] \<and>
        personFirstName r = JStr [] \<and> role r = JStr ''Participant'')
   \<and> (\<exists>r. processActor (JObj [(''Onderwerp'', JStr ''Vragenuur'')]) [] [] False
          (JObj [(''Functie'', JStr ''Voorzitter''),
                 (''Persoon'', JObj [(''Initialen'', JStr ''J.''), (''Voornamen'', JStr ''Jan'')])])
          initState = Some (initState\<lparr>attendanceData := [r]\<rparr>) \<and>
        activityTitle r = JStr ''Vragenuur'' \<and> personInitials r = JStr ''J.'' \<and>
        personFirstName r = JStr ''Jan'' \<and> role r = JStr ''Voorzitter'')"
  using falsy_values_get_defaults
      [of JNull "JObj [(''Functie'', JStr []),
                 (''Persoon'', JObj [(''Initialen'', JStr []), (''Voornamen'', JStr [])])]"
          "JObj [(''Initialen'', JStr []), (''Voornamen'', JStr [])]"
          "JObj [(''Onderwerp'', JStr [])]" "[]" "[]" False initState]
    falsy_values_get_defaults
      [of JNull "JObj [(''Functie'', JStr ''Voorzitter''),
                 (''Persoon'', JObj [(''Initialen'', JStr ''J.''), (''Voornamen'', JStr ''Jan'')])]"
          "JObj [(''Initialen'', JStr ''J.''), (''Voornamen'', JStr ''Jan'')]"
          "JObj [(''Onderwerp'', JStr ''Vragenuur'')]" "[]" "[]" False initState]
  by (simp add: nullish_def field_def initState_def)


section \<open>The start time of an activity\<close>

lemma replaceAll_same: "replaceAll c [c] s = s"
  by (induction s) (simp_all add: replaceAll_def)

lemma activityRows_dates:
  "parseStart api (orElse (field activity ''Aanvangstijd'') (field activity ''Datum'')) =
     (sT, d, t) \<Longrightarrow>
   list_all (\<lambda>r. activityDate r = d \<and> activityTime r = t \<and> hasValidDate r = (sT \<noteq> None))
     (activityRows api activity)"
  by (simp add: activityRows_def list_all_iff recordFor_def)

text \<open>
  Claim C1, as the code has it. Let \<open>dateStr\<close> be \<open>Aanvangstijd || Datum\<close>. Every record
  the callback pushes for the activity has
  \<^item> \<open>"Unknown"\<close>, \<open>"Unknown"\<close> and \<open>hasValidDate = false\<close> when \<open>dateStr\<close> is falsy (both
    fields missing);
  \<^item> the two formatted strings and \<open>hasValidDate = true\<close> when \<open>new Date(dateStr)\<close> is a
    valid date;
  \<^item> \<open>"Unknown"\<close>, \<open>"Unknown"\<close> and \<open>hasValidDate = true\<close> when \<open>dateStr\<close> is truthy and
    \<open>new Date(dateStr)\<close> is an Invalid Date: line 332 tests the \<open>Date\<close> object, which is
    truthy whatever its time value. The claim wants \<open>false\<close> there.
\<close>

theorem start_time_fields:
  "processActivity api activity st = Some st' \<and>
   dateStr = orElse (field activity ''Aanvangstijd'') (field activity ''Datum'') \<longrightarrow>
   (\<exists>rs. attendanceData st' = attendanceData st @ rs \<and>
      list_all (\<lambda>r.
        if \<not> truthy dateStr
        then activityDate r = ''Unknown'' \<and> activityTime r = ''Unknown'' \<and> \<not> hasValidDate r
        else (case newDate api dateStr of
                None \<Rightarrow>
                  activityDate r = ''Unknown'' \<and> activityTime r = ''Unknown'' \<and> hasValidDate r
              | Some t \<Rightarrow>
                  activityDate r = toLocaleDateString api t \<and>
                  activityTime r = toLocaleTimeString api t \<and> hasValidDate r)) rs)"
  (is "?H \<longrightarrow> (\<exists>rs. _ = _ @ rs \<and> list_all ?P rs)")
proof
  assume h: ?H
  obtain sT d t where ps: "parseStart api dateStr = (sT, d, t)"
    using prod_cases3 by blast
  have imp: "?P r"
    if "activityDate r = d \<and> activityTime r = t \<and> hasValidDate r = (sT \<noteq> None)"
    for r :: attendance_record
    using that ps
    by (auto simp: parseStart_def replaceAll_same split: if_splits option.splits)
  from h ps activityRows_dates [of api activity sT d t]
  have "list_all (\<lambda>r. activityDate r = d \<and> activityTime r = t \<and>
                      hasValidDate r = (sT \<noteq> None)) (activityRows api activity)"
    by simp
  then have "list_all ?P (activityRows api activity)"
    by (rule list.pred_mono_strong) (rule imp)
  with h processActivity_Some [of api activity st st']
  show "\<exists>rs. attendanceData st' = attendanceData st @ rs \<and> list_all ?P rs"
    by (intro exI [of _ "activityRows api activity"]) simp
qed

theorem start_time_fields_witness:
  "(\<exists>r. processActivity sampleDateApi
          (JObj [(''Aanvangstijd'', JStr ''binnenkort''),
                 (''ActiviteitActor'', JArr [JObj [(''Persoon'', JObj [])]])])
          initState = Some (initState\<lparr>attendanceData := [r]\<rparr>) \<and>
        activityDate r = ''Unknown'' \<and> activityTime r = ''Unknown'' \<and> hasValidDate r)
   \<and> (\<exists>r. processActivity sampleDateApi
          (JObj [(''ActiviteitActor'', JArr [JObj [(''Persoon'', JObj [])]])])
          initState = Some (initState\<lparr>attendanceData := [r]\<rparr>) \<and>
        activityDate r = ''Unknown'' \<and> activityTime r = ''Unknown'' \<and> \<not> hasValidDate r)
   \<and> (\<exists>r. processActivity sampleDateApi
          (JObj [(''Aanvangstijd'', JStr ''2024-03-15T14:30:00Z''),
                 (''ActiviteitActor'', JArr [JObj [(''Persoon'', JObj [])]])])
          initState = Some (initState\<lparr>attendanceData := [r]\<rparr>) \<and>
        activityDate r = ''15-03-2024'' \<and> activityTime r = ''15:30'' \<and> hasValidDate r)"
proof -
  let ?actor = "JObj [(''Persoon'', JObj [])]"
  have run: "processActivity sampleDateApi (JObj kvs) initState =
      Some (initState\<lparr>attendanceData := [recordFor (JObj kvs) d t (sT \<noteq> None) ?actor]\<rparr>)"
    if "map_of kvs ''ActiviteitActor'' = Some (JArr [?actor])"
      and "parseStart sampleDateApi
        (orElse (field (JObj kvs) ''Aanvangstijd'') (field (JObj kvs) ''Datum'')) = (sT, d, t)"
    for kvs sT d t
    using that
      processActivity_loop [of "JObj kvs" "[?actor]" sampleDateApi sT d t initState]
      forEach_actors_total [of "[?actor]" "JObj kvs" d t "sT \<noteq> None" initState]
    by (simp add: nullish_def field_def hasPerson_def initState_def)
  let ?a1 = "JObj [(''Aanvangstijd'', JStr ''binnenkort''), (''ActiviteitActor'', JArr [?actor])]"
  let ?a2 = "JObj [(''ActiviteitActor'', JArr [?actor])]"
  let ?a3 = "JObj [(''Aanvangstijd'', JStr ''2024-03-15T14:30:00Z''),
                   (''ActiviteitActor'', JArr [?actor])]"
  have 1: "processActivity sampleDateApi ?a1 initState =
      Some (initState\<lparr>attendanceData := [recordFor ?a1 ''Unknown'' ''Unknown'' True ?actor]\<rparr>)"
    using run [of _ "Some (DateObj None)" "''Unknown''" "''Unknown''"]
    by (simp add: parseStart_def sampleDateApi_def orElse_def field_def)
  have 2: "processActivity sampleDateApi ?a2 initState =
      Some (initState\<lparr>attendanceData := [recordFor ?a2 ''Unknown'' ''Unknown'' False ?actor]\<rparr>)"
    using run [of _ None "''Unknown''" "''Unknown''"]
    by (simp add: parseStart_def sampleDateApi_def orElse_def field_def)
  have 3: "processActivity sampleDateApi ?a3 initState =
      Some (initState\<lparr>attendanceData := [recordFor ?a3 ''15-03-2024'' ''15:30'' True ?actor]\<rparr>)"
    using run [of _ "Some (DateObj (Some 1710513000000))" "''15-03-2024''" "''15:30''"]
    by (simp add: parseStart_def sampleDateApi_def orElse_def field_def replaceAll_same)
  show ?thesis
    using 1 2 3 start_time_fields [THEN mp, OF conjI [OF 1 refl]]
      start_time_fields [THEN mp, OF conjI [OF 2 refl]]
      start_time_fields [THEN mp, OF conjI [OF 3 refl]]
    by (simp add: initState_def sampleDateApi_def orElse_def field_def)
qed


section \<open>The flattener returns on every batch of activity records\<close>





text \<open>
  Outside that shape the function does throw: a \<open>null\<close> among the activities or among
  the actors, or an actor collection that is not an array, is a TypeError.
\<close>

lemma flattener_throws_on_null_activity:
  "processAttendanceData api (JArr [JNull]) = None"
  by (simp add: processAttendanceData_def processActivity_def)

lemma flattener_throws_on_null_actor:
  "processAttendanceData api (JArr [JObj [(''ActiviteitActor'', JArr [JNull])]]) = None"
  by (simp add: processAttendanceData_def processActivity_def Let_def
      processActor_def split: prod.splits)


section \<open>The parameters of a query\<close>

lemma fold_pushOption:
  "fold (pushOption options) keys params =
     params @ map (\<lambda>k. ''$'' @ k @ ''='' @ toStr (lookupProp options k))
       (filter (\<lambda>k. lookupProp options k \<noteq> JUndefined \<and> lookupProp options k \<noteq> JNull) keys)"
  by (induction keys arbitrary: params) (simp_all add: pushOption_def)

lemma lookupProp_distinct:
  "distinct (map fst options) \<Longrightarrow> (k, v) \<in> set options \<Longrightarrow> lookupProp options k = v"
  by (simp add: lookupProp_def)

lemma option_keys_params:
  assumes "distinct (map fst options)"
  shows "map (\<lambda>k. ''$'' @ k @ ''='' @ toStr (lookupProp options k))
           (filter (\<lambda>k. lookupProp options k \<noteq> JUndefined \<and> lookupProp options k \<noteq> JNull)
              (map fst options)) = optionParams options"
proof -
  have "filter (\<lambda>k. lookupProp options k \<noteq> JUndefined \<and> lookupProp options k \<noteq> JNull)
          (map fst options) =
        map fst (filter (\<lambda>(k, v). v \<noteq> JUndefined \<and> v \<noteq> JNull) options)"
    unfolding filter_map
    by (rule arg_cong [where f = "map fst"], rule filter_cong)
      (auto simp: lookupProp_distinct [OF assms])
  then show ?thesis
    unfolding optionParams_def
    by (auto simp: lookupProp_distinct [OF assms])
qed

text \<open>
  Claim C3. For an options object, \<open>buildQuery\<close> gives the base URL, the endpoint, a
  question mark and the parameters joined by \<open>&\<close>, the parameters being those the
  specification words: the filters joined by \<open>" and "\<close> in one \<open>$filter\<close> clause when there
  are any, the expansions joined by commas in one \<open>$expand\<close> clause when there are any,
  \<open>$key=value\<close> once for each option that is neither \<open>undefined\<close> nor \<open>null\<close>, and
  \<open>$format=json\<close> as the last one. The example of the claim gives the five parameters
  \<open>$filter\<close>, \<open>$expand\<close>, \<open>$top=10\<close>, \<open>$skip=0\<close> and \<open>$format=json\<close>.
\<close>

theorem buildQuery_parameters:
  "(distinct (map fst options) \<longrightarrow>
      queryParams filters expands options = specParams filters expands options \<and>
      last (queryParams filters expands options) = ''$format=json'' \<and>
      buildQuery endpoint filters expands options =
        BASE_API_URL @ ''/'' @ endpoint @ ''?'' @
          joinWith ''&'' (specParams filters expands options))
   \<and> queryParams [''verwijderd eq false''] [''ActiviteitActor($expand=Persoon)'']
         [(''top'', JNum 10), (''skip'', JNum 0)] =
       [''$filter=verwijderd eq false'', ''$expand=ActiviteitActor($expand=Persoon)'',
        ''$top=10'', ''$skip=0'', ''$format=json'']
   \<and> buildQuery ''Activiteit'' [''verwijderd eq false''] [''ActiviteitActor($expand=Persoon)'']
         [(''top'', JNum 10), (''skip'', JNum 0)] =
       BASE_API_URL @ ''/Activiteit?$filter=verwijderd eq false'' @
         ''&$expand=ActiviteitActor($expand=Persoon)&$top=10&$skip=0&$format=json''"
  (is "(?D \<longrightarrow> ?Q \<and> ?L \<and> ?B) \<and> ?E1 \<and> ?E2")
proof (intro conjI impI)
  assume d: ?D
  show ?Q
    using option_keys_params [OF d]
    by (simp add: queryParams_def specParams_def fold_pushOption)
  then show ?B
    by (simp add: buildQuery_def Let_def specParams_def)
next
  show ?L
    by (simp add: queryParams_def Let_def)
next
  show ex: ?E1
    by (simp add: queryParams_def Let_def pushOption_def lookupProp_def showInt_def
        showNat.simps)
  show ?E2
    by (simp add: buildQuery_def Let_def ex)
qed

theorem buildQuery_parameters_witness:
  "queryParams [] [] [(''top'', JNum 10), (''orderby'', JUndefined), (''count'', JNull)] =
     [''$top=10'', ''$format=json'']
   \<and> buildQuery ''Activiteit'' [''a eq 1'', ''b eq 2''] [''X'', ''Y''] [] =
        BASE_API_URL @ ''/Activiteit?$filter=a eq 1 and b eq 2&$expand=X,Y&$format=json''
   \<and> distinct (queryParams [''verwijderd eq false''] [''ActiviteitActor($expand=Persoon)'']
         [(''top'', JNum 10), (''skip'', JNum 0)])
   \<and> length (filter (prefix ''$filter='')
         (queryParams [''verwijderd eq false''] [''ActiviteitActor($expand=Persoon)'']
           [(''top'', JNum 10), (''skip'', JNum 0)])) = 1
   \<and> length (filter (prefix ''$expand='')
         (queryParams [''verwijderd eq false''] [''ActiviteitActor($expand=Persoon)'']
           [(''top'', JNum 10), (''skip'', JNum 0)])) = 1"
proof -
  have ex: "queryParams [''verwijderd eq false''] [''ActiviteitActor($expand=Persoon)'']
         [(''top'', JNum 10), (''skip'', JNum 0)] =
       [''$filter=verwijderd eq false'', ''$expand=ActiviteitActor($expand=Persoon)'',
        ''$top=10'', ''$skip=0'', ''$format=json'']"
    using buildQuery_parameters by blast
  show ?thesis
    unfolding ex
    using buildQuery_parameters
        [of "[(''top'', JNum 10), (''orderby'', JUndefined), (''count'', JNull)]" "[]" "[]"]
      buildQuery_parameters [of "[]" "[''a eq 1'', ''b eq 2'']" "[''X'', ''Y'']" "''Activiteit''"]
    by (simp add: specParams_def optionParams_def showInt_def showNat.simps)
qed


section \<open>The base filter in the routes' queries\<close>









section \<open>The count query of the attendance route\<close>






end
